theory Spec2Isabelle
  imports Complex_Main "HOL-Library.Sublist"
begin

section \<open>Dataset acquisition\<close>

text \<open>
  The notebook's only function of its own is \<^verbatim>\<open>download_and_extract_data\<close>:
  \<^verbatim>\<open>
  def download_and_extract_data(dataset_dir='datasets'):
      data_zip = os.path.join(dataset_dir, 'hymenoptera_data.zip')
      data_path = os.path.join(dataset_dir, 'hymenoptera_data')
      url = "https://download.pytorch.org/tutorial/hymenoptera_data.zip"

      if not os.path.exists(data_path):
          if not os.path.exists(data_zip):
              print("Starting to download data...")
              data = request.urlopen(url, timeout=15).read()
              with open(data_zip, 'wb') as f:
                  f.write(data)

          print("Starting to extract data...")
          with ZipFile(data_zip, 'r') as zip_f:
              zip_f.extractall(dataset_dir)

      print("Data has been downloaded and extracted to {}.".format(dataset_dir))
  \<close>
  The file system is a map from paths to nodes, every effect of the function is recorded
  as an event, and every exception is a value. The network and the zip library are
  not part of the notebook: they are fields of an environment. A request returns the
  bytes it read or the error it raised; an extraction returns the files it left, with
  the error it raised if it did not finish.
\<close>

type_synonym path = string
type_synonym bytes = string

datatype node = Directory | RegularFile bytes

type_synonym filesystem = "path \<rightharpoonup> node"

datatype error =
    URLError string
  | FileNotFoundError path
  | NotADirectoryError path
  | IsADirectoryError path
  | BadZipFile path
  | OSError string

datatype event =
    Print string
  | UrlOpen string nat
  | WriteFile path bytes
  | ExtractAll path path

record world =
  files :: filesystem
  events :: "event list"

record env =
  urlopen_read :: "string \<Rightarrow> nat \<Rightarrow> error + bytes"
  zip_extractall :: "filesystem \<Rightarrow> path \<Rightarrow> path \<Rightarrow> (error + unit) \<times> filesystem"

text \<open>\<^verbatim>\<open>os.path.join\<close> on two components, as \<^verbatim>\<open>posixpath.join\<close> computes it.\<close>

definition os_path_join :: "path \<Rightarrow> path \<Rightarrow> path" where
  "os_path_join a b =
     (if b \<noteq> [] \<and> hd b = CHR ''/'' then b
      else if a = [] \<or> last a = CHR ''/'' then a @ b
      else a @ ''/'' @ b)"

definition os_path_exists :: "world \<Rightarrow> path \<Rightarrow> bool" where
  "os_path_exists w p = (files w p \<noteq> None)"

text \<open>\<^verbatim>\<open>posixpath.dirname\<close>: everything up to the last slash, trailing slashes removed
  unless the head consists of slashes only.\<close>

definition dirname :: "path \<Rightarrow> path" where
  "dirname p =
     (let head = rev (dropWhile (\<lambda>c. c \<noteq> CHR ''/'') (rev p))
      in if head \<noteq> [] \<and> filter (\<lambda>c. c \<noteq> CHR ''/'') head \<noteq> []
         then rev (dropWhile (\<lambda>c. c = CHR ''/'') (rev head))
         else head)"

definition print :: "string \<Rightarrow> world \<Rightarrow> world" where
  "print s w = w\<lparr>events := events w @ [Print s]\<rparr>"

text \<open>\<^verbatim>\<open>request.urlopen(url, timeout=t).read()\<close>: one request, recorded, whose outcome
  is the environment's.\<close>

definition urlopen :: "env \<Rightarrow> string \<Rightarrow> nat \<Rightarrow> world \<Rightarrow> (error + bytes) \<times> world" where
  "urlopen en url t w = (urlopen_read en url t, w\<lparr>events := events w @ [UrlOpen url t]\<rparr>)"

text \<open>\<^verbatim>\<open>with open(p, 'wb') as f: f.write(data)\<close>: the file is created or truncated; the
  call raises when the parent directory is missing or is a file, or the path is a
  directory. A path without a directory part lies in the working directory.\<close>

definition write_binary :: "path \<Rightarrow> bytes \<Rightarrow> world \<Rightarrow> (error + unit) \<times> world" where
  "write_binary p data w =
     (if dirname p \<noteq> [] \<and> files w (dirname p) = None
        then (Inl (FileNotFoundError p), w)
      else if dirname p \<noteq> [] \<and> files w (dirname p) \<noteq> Some Directory
        then (Inl (NotADirectoryError p), w)
      else if files w p = Some Directory
        then (Inl (IsADirectoryError p), w)
      else (Inr (), w\<lparr>files := (files w)(p \<mapsto> RegularFile data),
                       events := events w @ [WriteFile p data]\<rparr>))"

text \<open>\<^verbatim>\<open>with ZipFile(z, 'r') as zip_f: zip_f.extractall(d)\<close>: the archive at \<open>z\<close> is
  opened and unpacked under \<open>d\<close>; what that leaves on disk, and the error it may
  raise, are the zip library's.\<close>

definition extractall :: "env \<Rightarrow> path \<Rightarrow> path \<Rightarrow> world \<Rightarrow> (error + unit) \<times> world" where
  "extractall en z d w =
     (case zip_extractall en (files w) z d of
        (r, fs') \<Rightarrow> (r, w\<lparr>files := fs', events := events w @ [ExtractAll z d]\<rparr>))"

definition archive_url :: string where
  "archive_url = ''https://download.pytorch.org/tutorial/hymenoptera_data.zip''"

definition data_zip_of :: "path \<Rightarrow> path" where
  "data_zip_of dataset_dir = os_path_join dataset_dir ''hymenoptera_data.zip''"

definition data_path_of :: "path \<Rightarrow> path" where
  "data_path_of dataset_dir = os_path_join dataset_dir ''hymenoptera_data''"

definition done_message :: "path \<Rightarrow> string" where
  "done_message dataset_dir =
     ''Data has been downloaded and extracted to '' @ dataset_dir @ ''.''"

text \<open>The inner \<^verbatim>\<open>if not os.path.exists(data_zip)\<close> block.\<close>

definition download_step :: "env \<Rightarrow> path \<Rightarrow> world \<Rightarrow> (error + unit) \<times> world" where
  "download_step en data_zip w =
     (if \<not> os_path_exists w data_zip then
        (case urlopen en archive_url 15 (print ''Starting to download data...'' w) of
           (Inl e, w1) \<Rightarrow> (Inl e, w1)
         | (Inr data, w1) \<Rightarrow> write_binary data_zip data w1)
      else (Inr (), w))"

definition download_and_extract_data :: "env \<Rightarrow> path \<Rightarrow> world \<Rightarrow> (error + unit) \<times> world" where
  "download_and_extract_data en dataset_dir w =
     (let data_zip = data_zip_of dataset_dir;
          data_path = data_path_of dataset_dir
      in if \<not> os_path_exists w data_path then
           (case download_step en data_zip w of
              (Inl e, w1) \<Rightarrow> (Inl e, w1)
            | (Inr u, w1) \<Rightarrow>
                (case extractall en data_zip dataset_dir (print ''Starting to extract data...'' w1) of
                   (Inl e, w2) \<Rightarrow> (Inl e, w2)
                 | (Inr u', w2) \<Rightarrow> (Inr (), print (done_message dataset_dir) w2)))
         else (Inr (), print (done_message dataset_dir) w))"

text \<open>What a run added to the event log, and the requests among it.\<close>

definition is_request :: "event \<Rightarrow> bool" where
  "is_request ev = (case ev of UrlOpen u t \<Rightarrow> True | _ \<Rightarrow> False)"

definition is_extraction :: "event \<Rightarrow> bool" where
  "is_extraction ev = (case ev of ExtractAll z d \<Rightarrow> True | _ \<Rightarrow> False)"

definition new_events :: "world \<Rightarrow> world \<Rightarrow> event list" where
  "new_events w w' = drop (length (events w)) (events w')"

text \<open>Environments and worlds on which the function is run below: a server that
  delivers the archive, a network that times out, an empty \<^verbatim>\<open>datasets\<close> directory,
  and one that holds a truncated archive left behind by an interrupted download. The
  zip library of these environments unpacks the one archive it knows and rejects every
  other file.\<close>

definition demo_archive :: bytes where
  "demo_archive = ''PK hymenoptera_data''"

definition demo_extractall ::
  "filesystem \<Rightarrow> path \<Rightarrow> path \<Rightarrow> (error + unit) \<times> filesystem" where
  "demo_extractall fs z d =
     (case fs z of
        None \<Rightarrow> (Inl (FileNotFoundError z), fs)
      | Some Directory \<Rightarrow> (Inl (IsADirectoryError z), fs)
      | Some (RegularFile b) \<Rightarrow>
          if b = demo_archive
          then (Inr (), fs(os_path_join d ''hymenoptera_data'' \<mapsto> Directory))
          else (Inl (BadZipFile z), fs))"

definition online_env :: env where
  "online_env =
     \<lparr>urlopen_read = (\<lambda>u t. if u = archive_url then Inr demo_archive
                              else Inl (URLError ''HTTP Error 404'')),
      zip_extractall = demo_extractall\<rparr>"

definition offline_env :: env where
  "offline_env =
     \<lparr>urlopen_read = (\<lambda>u t. Inl (URLError ''timed out'')),
      zip_extractall = demo_extractall\<rparr>"

definition fresh_world :: world where
  "fresh_world = \<lparr>files = [''datasets'' \<mapsto> Directory], events = []\<rparr>"

definition truncated_zip_world :: world where
  "truncated_zip_world =
     \<lparr>files = [''datasets'' \<mapsto> Directory,
               ''datasets/hymenoptera_data.zip'' \<mapsto> RegularFile ''PK''],
      events = []\<rparr>"

definition whole_zip_world :: world where
  "whole_zip_world =
     \<lparr>files = [''datasets'' \<mapsto> Directory,
               ''datasets/hymenoptera_data.zip'' \<mapsto> RegularFile demo_archive],
      events = []\<rparr>"

definition after_first_run :: world where
  "after_first_run = snd (download_and_extract_data online_env ''datasets'' fresh_world)"

section \<open>Transform pipelines\<close>

text \<open>
  \<^verbatim>\<open>
  train_transforms = transforms.Compose([
      transforms.RandomResizedCrop(224),
      transforms.RandomHorizontalFlip(),
      transforms.ToTensor(),
      transforms.Normalize([0.485, 0.456, 0.406],
                           [0.229, 0.224, 0.225])
  ])
  val_transforms = transforms.Compose([
      transforms.Resize(256),
      transforms.CenterCrop(224),
      transforms.ToTensor(),
      transforms.Normalize([0.485, 0.456, 0.406],
                           [0.229, 0.224, 0.225])
  ])
  \<close>
  A pipeline is the list of its steps. The decimal constants are kept as the exact
  rationals the source text denotes.
\<close>

datatype transform =
    RandomResizedCrop nat
  | RandomHorizontalFlip
  | ToTensor
  | Normalize "rat list" "rat list"
  | Resize nat
  | CenterCrop nat

definition train_transforms :: "transform list" where
  "train_transforms =
     [RandomResizedCrop 224,
      RandomHorizontalFlip,
      ToTensor,
      Normalize [0.485, 0.456, 0.406] [0.229, 0.224, 0.225]]"

definition val_transforms :: "transform list" where
  "val_transforms =
     [Resize 256,
      CenterCrop 224,
      ToTensor,
      Normalize [0.485, 0.456, 0.406] [0.229, 0.224, 0.225]]"

text \<open>The normalization steps of a pipeline, each as its pair of mean and standard
  deviation, in the order in which they are applied.\<close>

fun normalizations :: "transform list \<Rightarrow> (rat list \<times> rat list) list" where
  "normalizations [] = []"
| "normalizations (Normalize mean std # ts) = (mean, std) # normalizations ts"
| "normalizations (t # ts) = normalizations ts"

text \<open>
  The image operations themselves belong to the vision library. The deterministic ones
  are functions of the sample; the two random ones also read and advance the state of
  the random number generator, which \<^verbatim>\<open>torch.manual_seed(360)\<close> fixes at the start
  of the notebook. A sample of type \<open>'a\<close> is an image or a tensor, \<open>'g\<close> is the
  generator state.
\<close>

record ('a, 'g) vision =
  random_resized_crop :: "nat \<Rightarrow> 'g \<Rightarrow> 'a \<Rightarrow> 'a \<times> 'g"
  random_horizontal_flip :: "'g \<Rightarrow> 'a \<Rightarrow> 'a \<times> 'g"
  to_tensor :: "'a \<Rightarrow> 'a"
  normalize :: "rat list \<Rightarrow> rat list \<Rightarrow> 'a \<Rightarrow> 'a"
  resize :: "nat \<Rightarrow> 'a \<Rightarrow> 'a"
  center_crop :: "nat \<Rightarrow> 'a \<Rightarrow> 'a"

fun apply_transform :: "('a, 'g) vision \<Rightarrow> transform \<Rightarrow> 'g \<Rightarrow> 'a \<Rightarrow> 'a \<times> 'g" where
  "apply_transform v (RandomResizedCrop n) g x = random_resized_crop v n g x"
| "apply_transform v RandomHorizontalFlip g x = random_horizontal_flip v g x"
| "apply_transform v ToTensor g x = (to_tensor v x, g)"
| "apply_transform v (Normalize mean std) g x = (normalize v mean std x, g)"
| "apply_transform v (Resize n) g x = (resize v n x, g)"
| "apply_transform v (CenterCrop n) g x = (center_crop v n x, g)"

text \<open>\<^verbatim>\<open>Compose.__call__\<close>: \<^verbatim>\<open>for t in self.transforms: img = t(img)\<close>.\<close>

fun compose :: "('a, 'g) vision \<Rightarrow> transform list \<Rightarrow> 'g \<Rightarrow> 'a \<Rightarrow> 'a \<times> 'g" where
  "compose v [] g x = (x, g)"
| "compose v (t # ts) g x = (case apply_transform v t g x of (x', g') \<Rightarrow> compose v ts g' x')"

text \<open>A small vision library to run the pipelines on: a sample is the list of the
  operations applied to it, the generator state is a counter, and the random operations
  record the state they drew from.\<close>

definition demo_vision :: "(string list, nat) vision" where
  "demo_vision =
     \<lparr>random_resized_crop = (\<lambda>n g x. (x @ [''crop@'' @ replicate g CHR ''*''], Suc g)),
      random_horizontal_flip = (\<lambda>g x. (if even g then x @ [''flip''] else x, Suc g)),
      to_tensor = (\<lambda>x. x @ [''tensor'']),
      normalize = (\<lambda>mean std x. x @ [''normalize'']),
      resize = (\<lambda>n x. x @ [''resize'']),
      center_crop = (\<lambda>n x. x @ [''center''])\<rparr>"

section \<open>Model assembly\<close>

text \<open>
  \<^verbatim>\<open>
  class PretrainedModel(nn.Module):
      def __init__(self, output_features):
          super().__init__()
          model = models.resnet18(pretrained=True)
          num_ftrs = model.fc.in_features
          model.fc = nn.Linear(num_ftrs, output_features)
          self.model = model
  \<close>
  A module is the list of its named parameters. The pretrained network and the values
  the new linear layer starts from are given; the values are of any type \<open>'v\<close>.
  Assigning \<^verbatim>\<open>model.fc\<close> replaces the parameters of the submodule \<^verbatim>\<open>fc\<close>, and
  holding the network in the attribute \<^verbatim>\<open>model\<close> puts \<^verbatim>\<open>model.\<close> in front of
  every name. A parameter is created trainable.
\<close>

record 'v parameter =
  pname :: string
  pdata :: 'v
  requires_grad :: bool

text \<open>\<^verbatim>\<open>str.startswith\<close>.\<close>

definition startswith :: "string \<Rightarrow> string \<Rightarrow> bool" where
  "startswith s p = prefix p s"

definition new_parameter :: "string \<times> 'v \<Rightarrow> 'v parameter" where
  "new_parameter nv = \<lparr>pname = fst nv, pdata = snd nv, requires_grad = True\<rparr>"

definition assign_fc :: "(string \<times> 'v) list \<Rightarrow> 'v \<Rightarrow> 'v \<Rightarrow> (string \<times> 'v) list" where
  "assign_fc resnet18 weight bias =
     filter (\<lambda>nv. \<not> startswith (fst nv) ''fc.'') resnet18
       @ [(''fc.weight'', weight), (''fc.bias'', bias)]"

definition PretrainedModel :: "(string \<times> 'v) list \<Rightarrow> 'v \<Rightarrow> 'v \<Rightarrow> 'v parameter list" where
  "PretrainedModel resnet18 weight bias =
     map (\<lambda>nv. new_parameter (''model.'' @ fst nv, snd nv)) (assign_fc resnet18 weight bias)"

section \<open>Training configuration\<close>

text \<open>
  \<^verbatim>\<open>
  lrscheduler = LRScheduler(policy='StepLR', step_size=7, gamma=0.1)
  checkpoint = Checkpoint(f_params='best_model.pt', monitor='valid_acc_best')
  freezer = Freezer(lambda x: not x.startswith('model.fc'))

  net = NeuralNetClassifier(
      PretrainedModel,
      criterion=nn.CrossEntropyLoss,
      lr=0.001,
      batch_size=4,
      max_epochs=25,
      module__output_features=2,
      optimizer=optim.SGD,
      optimizer__momentum=0.9,
      iterator_train__shuffle=True,
      iterator_train__num_workers=2,
      iterator_valid__shuffle=True,
      iterator_valid__num_workers=2,
      train_split=predefined_split(val_ds),
      callbacks=[lrscheduler, checkpoint, freezer],
      device='cuda' # comment to train on cpu
  )
  \<close>
  The validation set of \<^verbatim>\<open>predefined_split\<close> is an argument of \<open>fit\<close> below.
\<close>

datatype device = CPU | CUDA

datatype policy = StepLR

datatype monitor = Valid_acc_best

datatype callback =
    LRScheduler policy nat rat
  | Checkpoint string monitor
  | Freezer "string \<Rightarrow> bool"

record config =
  criterion :: string
  lr :: rat
  batch_size :: nat
  max_epochs :: nat
  module_output_features :: nat
  optimizer :: string
  optimizer_momentum :: rat
  iterator_train_shuffle :: bool
  iterator_train_num_workers :: nat
  iterator_valid_shuffle :: bool
  iterator_valid_num_workers :: nat
  callbacks :: "callback list"
  device :: device

definition lrscheduler :: callback where
  "lrscheduler = LRScheduler StepLR 7 0.1"

definition checkpoint :: callback where
  "checkpoint = Checkpoint ''best_model.pt'' Valid_acc_best"

definition freezer :: callback where
  "freezer = Freezer (\<lambda>x. \<not> startswith x ''model.fc'')"

definition net :: config where
  "net =
     \<lparr>criterion = ''CrossEntropyLoss'',
      lr = 0.001,
      batch_size = 4,
      max_epochs = 25,
      module_output_features = 2,
      optimizer = ''SGD'',
      optimizer_momentum = 0.9,
      iterator_train_shuffle = True,
      iterator_train_num_workers = 2,
      iterator_valid_shuffle = True,
      iterator_valid_num_workers = 2,
      callbacks = [lrscheduler, checkpoint, freezer],
      device = CUDA\<rparr>"

section \<open>Training orchestration\<close>

text \<open>
  The training loop and the three callbacks are the wrapper library's; the notebook only
  configures and calls them, and their code is not among the sources. They are modelled
  from section 4.4 of the specification, one definition for each thing the section
  names. Rates and accuracies are exact rationals; rounding of floating-point numbers
  is not modelled.
\<close>

text \<open>Modelled from the spec: the numerical work under the training loop, which is
  the tensor library's and missing from the sources: the permutation a shuffling loader
  draws in an epoch, the value a gradient step gives a trainable parameter, and the
  accuracy of a model on a data set. Samples are of any type \<open>'x\<close>.\<close>

record ('x, 'v) backend =
  shuffle :: "nat \<Rightarrow> 'x list \<Rightarrow> 'x list"
  sgd_update :: "rat \<Rightarrow> 'x list \<Rightarrow> 'v parameter list \<Rightarrow> 'v parameter \<Rightarrow> 'v"
  accuracy :: "'v parameter list \<Rightarrow> 'x list \<Rightarrow> rat"

text \<open>Modelled from the spec: one line of the training log, which the wrapper
  keeps and whose code is missing from the sources. "After each epoch, evaluate on the
  validation set [...] and report loss/accuracy": the columns \<^verbatim>\<open>epoch\<close>,
  \<^verbatim>\<open>valid_acc\<close>, \<^verbatim>\<open>cp\<close> and \<^verbatim>\<open>lr\<close> of the table the notebook prints, whether
  the accuracy is the best so far, and the sizes of the batches of the epoch.\<close>

record row =
  epoch :: nat
  train_batch_sizes :: "nat list"
  valid_batch_sizes :: "nat list"
  valid_acc :: rat
  valid_acc_best :: bool
  event_cp :: bool
  event_lr :: rat

type_synonym 'v state_dict = "(string \<times> 'v) list"

text \<open>Modelled from the spec: the state of a training run, which the wrapper keeps and
  whose code is missing from the sources. "Model: [...] mutated in place by the training
  process (weight updates)"; "Checkpoint: a persisted snapshot of model parameters
  written to disk": the parameters, the rate of the optimizer, the epochs the scheduler
  has counted, the best accuracy seen, the log, and the checkpoint files by name.\<close>

record 'v net_state =
  module_params :: "'v parameter list"
  optimizer_lr :: rat
  last_epoch :: nat
  best_score :: "rat option"
  history :: "row list"
  saved :: "string \<rightharpoonup> 'v state_dict"

text \<open>Modelled from the spec: the initial state of a training run, which the wrapper
  builds and whose code is missing from the sources. "Training run configuration: an
  immutable record of hyperparameters [...] consumed once at orchestration start": the
  optimizer starts from the configured rate, no accuracy has been seen, the log is
  empty and nothing has been saved.\<close>

definition initialize :: "config \<Rightarrow> 'v parameter list \<Rightarrow> 'v net_state" where
  "initialize cfg m =
     \<lparr>module_params = m, optimizer_lr = lr cfg, last_epoch = 0,
      best_score = None, history = [], saved = Map.empty\<rparr>"

text \<open>Modelled from the spec: the batching of the data loader, which is missing from
  the sources. "Iterate the training set in shuffled mini-batches": consecutive batches
  of \<open>n\<close> samples, the last one holding what remains.\<close>

function batches :: "nat \<Rightarrow> 'a list \<Rightarrow> 'a list list" where
  "batches n xs = (if n = 0 \<or> xs = [] then [] else take n xs # batches n (drop n xs))"
  by pat_completeness auto
termination
  by (relation "measure (\<lambda>(n, xs). length xs)") auto

declare batches.simps [simp del]

text \<open>Modelled from the spec: the data loader of an epoch, which is missing from the
  sources. "Iterate the training set in shuffled mini-batches"; "the validation set
  (also batched, optionally shuffled)".\<close>

definition iterator :: "('x, 'v) backend \<Rightarrow> nat \<Rightarrow> bool \<Rightarrow> nat \<Rightarrow> 'x list \<Rightarrow> 'x list list" where
  "iterator be n shuffled e xs = batches n (if shuffled then shuffle be e xs else xs)"

text \<open>Modelled from the spec: the freezing callback, which is missing from the
  sources. "Before training begins, mark all parameters whose name does not match the
  final-layer prefix as non-trainable": the callback is given the predicate that selects
  the names to freeze.\<close>

definition freeze_parameter :: "(string \<Rightarrow> bool) \<Rightarrow> 'v parameter \<Rightarrow> 'v parameter" where
  "freeze_parameter matches p = (if matches (pname p) then p\<lparr>requires_grad := False\<rparr> else p)"

text \<open>Modelled from the spec: what the callbacks do when training begins, which is
  missing from the sources. "Parameter freezing: before training begins, mark all
  parameters whose name does not match the final-layer prefix as non-trainable"; the
  scheduler starts counting epochs, the checkpoint does nothing.\<close>

fun on_train_begin :: "callback \<Rightarrow> 'v net_state \<Rightarrow> 'v net_state" where
  "on_train_begin (Freezer matches) st =
     st\<lparr>module_params := map (freeze_parameter matches) (module_params st)\<rparr>"
| "on_train_begin (LRScheduler p step_size gamma) st = st\<lparr>last_epoch := 0\<rparr>"
| "on_train_begin (Checkpoint f mon) st = st"

text \<open>Modelled from the spec: the optimizer step of the training loop, which is
  missing from the sources. "Compute a classification loss, backpropagate, and update
  only the parameters not excluded by the freezing policy."\<close>

definition train_step ::
  "('x, 'v) backend \<Rightarrow> rat \<Rightarrow> 'x list \<Rightarrow> 'v parameter list \<Rightarrow> 'v parameter list" where
  "train_step be rate batch m =
     map (\<lambda>p. if requires_grad p then p\<lparr>pdata := sgd_update be rate batch m p\<rparr> else p) m"

text \<open>Modelled from the spec: the training pass of an epoch, which is missing from
  the sources. "Each batch's forward pass, loss computation, and backward pass complete
  before the next batch begins": one step per batch, in order, each recording the size
  of its batch.\<close>

definition train_pass ::
  "('x, 'v) backend \<Rightarrow> rat \<Rightarrow> 'x list list \<Rightarrow> 'v parameter list
     \<Rightarrow> 'v parameter list \<times> nat list" where
  "train_pass be rate bs m =
     fold (\<lambda>b acc. (train_step be rate b (fst acc), snd acc @ [length b])) bs (m, [])"

text \<open>Modelled from the spec: the validation pass of an epoch, which is missing from
  the sources. "After each epoch, evaluate on the validation set (also batched,
  optionally shuffled)": one step per batch, each recording the size of its batch.\<close>

definition valid_pass :: "'x list list \<Rightarrow> nat list" where
  "valid_pass bs = fold (\<lambda>b sizes. sizes @ [length b]) bs []"

text \<open>Modelled from the spec: the content of a checkpoint, which is missing from the
  sources. "A persisted snapshot of model parameters": every parameter by name.\<close>

definition state_dict :: "'v parameter list \<Rightarrow> 'v state_dict" where
  "state_dict m = map (\<lambda>p. (pname p, pdata p)) m"

text \<open>Modelled from the spec: the value a checkpoint monitors, which is missing from
  the sources. "Whenever the monitored validation accuracy strictly improves on its
  best-seen value": the column of the log line that says so.\<close>

definition monitored :: "monitor \<Rightarrow> row \<Rightarrow> bool" where
  "monitored mon r = (case mon of Valid_acc_best \<Rightarrow> valid_acc_best r)"

text \<open>Modelled from the spec: the learning-rate and checkpoint callbacks, which are
  missing from the sources. "Learning-rate schedule: multiply the learning rate by a
  decay factor every fixed number of epochs (step decay)"; "Checkpointing: persist the
  full model state to a fixed file path whenever the monitored validation accuracy
  strictly improves on its best-seen value". A callback sees the state and the log line
  of the epoch that ends.\<close>

fun on_epoch_end :: "callback \<Rightarrow> 'v net_state \<times> row \<Rightarrow> 'v net_state \<times> row" where
  "on_epoch_end (LRScheduler p step_size gamma) (st, r) =
     (let n = Suc (last_epoch st)
      in (st\<lparr>last_epoch := n,
              optimizer_lr := (if n mod step_size = 0 then optimizer_lr st * gamma
                               else optimizer_lr st)\<rparr>, r))"
| "on_epoch_end (Checkpoint f mon) (st, r) =
     (if monitored mon r
      then (st\<lparr>saved := (saved st)(f \<mapsto> state_dict (module_params st))\<rparr>, r\<lparr>event_cp := True\<rparr>)
      else (st, r))"
| "on_epoch_end (Freezer matches) (st, r) = (st, r)"

text \<open>Modelled from the spec: one epoch of the training loop, which is missing from
  the sources. "Iterate the training set in shuffled mini-batches, compute a
  classification loss, backpropagate, and update [...]. After each epoch, evaluate on the
  validation set (also batched, optionally shuffled) and report loss/accuracy. Three
  policies attach to this loop as side-effecting observers invoked at epoch
  boundaries." The accuracy is the best when it is strictly above the best seen so far,
  or when none has been seen.\<close>

definition run_single_epoch ::
  "('x, 'v) backend \<Rightarrow> config \<Rightarrow> 'x list \<Rightarrow> 'x list \<Rightarrow> 'v net_state \<Rightarrow> 'v net_state" where
  "run_single_epoch be cfg train valid st =
     (let e = Suc (length (history st));
          rate = optimizer_lr st;
          trained = train_pass be rate
                      (iterator be (batch_size cfg) (iterator_train_shuffle cfg) e train)
                      (module_params st);
          seen = iterator be (batch_size cfg) (iterator_valid_shuffle cfg) e valid;
          sizes = valid_pass seen;
          acc = accuracy be (fst trained) (concat seen);
          best = (case best_score st of None \<Rightarrow> True | Some b \<Rightarrow> b < acc);
          r = \<lparr>epoch = e, train_batch_sizes = snd trained, valid_batch_sizes = sizes,
               valid_acc = acc, valid_acc_best = best, event_cp = False, event_lr = rate\<rparr>;
          st1 = st\<lparr>module_params := fst trained,
                   best_score := (if best then Some acc else best_score st)\<rparr>;
          ended = fold on_epoch_end (callbacks cfg) (st1, r)
      in (fst ended)\<lparr>history := history (fst ended) @ [snd ended]\<rparr>)"

text \<open>Modelled from the spec: the loop over the epochs, which is missing from the
  sources. "Repeatedly, for a fixed number of epochs": \<open>k\<close> epochs, one after the
  other.\<close>

primrec fit_loop ::
  "('x, 'v) backend \<Rightarrow> config \<Rightarrow> 'x list \<Rightarrow> 'x list \<Rightarrow> nat \<Rightarrow> 'v net_state \<Rightarrow> 'v net_state" where
  "fit_loop be cfg train valid 0 st = st"
| "fit_loop be cfg train valid (Suc k) st =
     fit_loop be cfg train valid k (run_single_epoch be cfg train valid st)"

text \<open>Modelled from the spec: the state of a run at an epoch boundary, which is
  missing from the sources. "Side-effecting observers invoked at epoch boundaries":
  \<open>state_after\<close> is the state at the boundary that ends epoch \<open>k\<close>, the callbacks
  having been told before the first epoch that training begins.\<close>

definition state_after ::
  "('x, 'v) backend \<Rightarrow> config \<Rightarrow> 'v parameter list \<Rightarrow> 'x list \<Rightarrow> 'x list \<Rightarrow> nat
     \<Rightarrow> 'v net_state" where
  "state_after be cfg m train valid k =
     fit_loop be cfg train valid k (fold on_train_begin (callbacks cfg) (initialize cfg m))"

text \<open>Modelled from the spec: the entry point of the training loop, which is missing
  from the sources. "Run a fixed number of epochs through the assembled model": all
  epochs of the configuration.\<close>

definition fit ::
  "('x, 'v) backend \<Rightarrow> config \<Rightarrow> 'v parameter list \<Rightarrow> 'x list \<Rightarrow> 'x list \<Rightarrow> 'v net_state" where
  "fit be cfg m train valid = state_after be cfg m train valid (max_epochs cfg)"

text \<open>A backend, a pretrained network and two data sets to run the loop on: a parameter
  counts the steps that updated it, and the accuracy of an epoch is read off the table
  the notebook printed for its own run.\<close>

definition logged_valid_acc :: "rat list" where
  "logged_valid_acc =
     [0.9477, 0.9346, 0.9412, 0.9346, 0.7778, 0.9216, 0.8889, 0.9477, 0.9477, 0.9281,
      0.9346, 0.9477, 0.9477, 0.9542, 0.9477, 0.9412, 0.9346, 0.9281, 0.9477, 0.9477,
      0.9412, 0.9346, 0.9477, 0.9216, 0.9477]"

definition steps_taken :: "nat parameter list \<Rightarrow> nat" where
  "steps_taken m = fold max (map pdata (filter requires_grad m)) 0"

definition demo_backend :: "(nat, nat) backend" where
  "demo_backend =
     \<lparr>shuffle = (\<lambda>e xs. rotate e xs),
      sgd_update = (\<lambda>rate batch m p. Suc (pdata p)),
      accuracy = (\<lambda>m valid. if 0 < steps_taken m \<and> (steps_taken m - 1) div 2 < 25
                             then logged_valid_acc ! ((steps_taken m - 1) div 2) else 0)\<rparr>"

definition demo_resnet18 :: "(string \<times> nat) list" where
  "demo_resnet18 =
     [(''conv1.weight'', 64), (''bn1.weight'', 1), (''bn1.bias'', 0),
      (''layer1.0.conv1.weight'', 3), (''fc.weight'', 1000), (''fc.bias'', 1000)]"

definition demo_model :: "nat parameter list" where
  "demo_model = PretrainedModel demo_resnet18 0 0"

definition demo_train :: "nat list" where
  "demo_train = [0, 1, 2, 3, 4, 5]"

definition demo_valid :: "nat list" where
  "demo_valid = [10, 11, 12, 13, 14]"

section \<open>Properties of the dataset acquisition\<close>

lemma new_events_append: "new_events w (w\<lparr>events := events w @ es\<rparr>) = es"
  by (simp add: new_events_def)

lemma new_events_append_files:
  "new_events w (w\<lparr>files := fs, events := events w @ es\<rparr>) = es"
  by (simp add: new_events_def)

text \<open>The function has five outcomes: the data directory is there; the archive is
  there and is unpacked; nothing is there and the request fails, the write fails, or
  both succeed and the archive is unpacked. An extraction ends the function with its
  own outcome, followed by the closing message when it raised nothing.\<close>

lemma download_and_extract_data_cases:
  "download_and_extract_data en d w =
    (if os_path_exists w (data_path_of d) then
       (Inr (), w\<lparr>events := events w @ [Print (done_message d)]\<rparr>)
     else if os_path_exists w (data_zip_of d) then
       (case zip_extractall en (files w) (data_zip_of d) d of
          (Inl e, fs') \<Rightarrow>
            (Inl e, w\<lparr>files := fs', events := events w @
               [Print ''Starting to extract data...'', ExtractAll (data_zip_of d) d]\<rparr>)
        | (Inr u, fs') \<Rightarrow>
            (Inr (), w\<lparr>files := fs', events := events w @
               [Print ''Starting to extract data...'', ExtractAll (data_zip_of d) d,
                Print (done_message d)]\<rparr>))
     else
       (case urlopen_read en archive_url 15 of
          Inl e \<Rightarrow>
            (Inl e, w\<lparr>events := events w @
               [Print ''Starting to download data...'', UrlOpen archive_url 15]\<rparr>)
        | Inr data \<Rightarrow>
           (case fst (write_binary (data_zip_of d) data w) of
              Inl e \<Rightarrow>
                (Inl e, w\<lparr>events := events w @
                   [Print ''Starting to download data...'', UrlOpen archive_url 15]\<rparr>)
            | Inr u \<Rightarrow>
               (case zip_extractall en ((files w)(data_zip_of d \<mapsto> RegularFile data))
                       (data_zip_of d) d of
                  (Inl e, fs') \<Rightarrow>
                    (Inl e, w\<lparr>files := fs', events := events w @
                       [Print ''Starting to download data...'', UrlOpen archive_url 15,
                        WriteFile (data_zip_of d) data,
                        Print ''Starting to extract data...'', ExtractAll (data_zip_of d) d]\<rparr>)
                | (Inr u', fs') \<Rightarrow>
                    (Inr (), w\<lparr>files := fs', events := events w @
                       [Print ''Starting to download data...'', UrlOpen archive_url 15,
                        WriteFile (data_zip_of d) data,
                        Print ''Starting to extract data...'', ExtractAll (data_zip_of d) d,
                        Print (done_message d)]\<rparr>)))))"
  by (auto simp: download_and_extract_data_def download_step_def extractall_def urlopen_def
        write_binary_def print_def os_path_exists_def Let_def split: sum.splits prod.splits)

lemma paths_datasets:
  "data_path_of ''datasets'' = ''datasets/hymenoptera_data''"
  "data_zip_of ''datasets'' = ''datasets/hymenoptera_data.zip''"
  by (simp_all add: data_path_of_def data_zip_of_def os_path_join_def)

lemma done_message_differs: "done_message d \<noteq> ''Starting to extract data...''"
  by (simp add: done_message_def)

lemma first_run:
  "download_and_extract_data online_env ''datasets'' fresh_world =
     (Inr (), \<lparr>files = [''datasets'' \<mapsto> Directory,
                        ''datasets/hymenoptera_data.zip'' \<mapsto> RegularFile demo_archive,
                        ''datasets/hymenoptera_data'' \<mapsto> Directory],
               events = [Print ''Starting to download data...'', UrlOpen archive_url 15,
                         WriteFile ''datasets/hymenoptera_data.zip'' demo_archive,
                         Print ''Starting to extract data...'',
                         ExtractAll ''datasets/hymenoptera_data.zip'' ''datasets'',
                         Print (done_message ''datasets'')]\<rparr>)"
  by (simp add: download_and_extract_data_cases paths_datasets online_env_def fresh_world_def
      os_path_exists_def write_binary_def dirname_def demo_extractall_def os_path_join_def)

text \<open>
  C3. Dataset acquisition is idempotent: when the extracted dataset directory exists,
  \<open>download_and_extract_data\<close> returns normally, leaves every file as it was, and
  does nothing but print its closing message: no request is sent and no archive is
  unpacked. The world after a run that left the directory in place is such a world, so a
  second invocation changes no file.
\<close>

theorem download_and_extract_data_idempotent:
  assumes "os_path_exists w (data_path_of d)"
  shows "\<exists>w'. download_and_extract_data en d w = (Inr (), w')
           \<and> files w' = files w
           \<and> new_events w w' = [Print (done_message d)]
           \<and> filter is_request (new_events w w') = []
           \<and> filter is_extraction (new_events w w') = []"
  using assms
  by (simp add: download_and_extract_data_cases new_events_append is_request_def
      is_extraction_def)

text \<open>The first run downloads and unpacks into an empty \<^verbatim>\<open>datasets\<close> directory; the
  second run starts from the world the first one left.\<close>

theorem download_and_extract_data_idempotent_witness:
  "fst (download_and_extract_data online_env ''datasets'' fresh_world) = Inr ()
   \<and> os_path_exists after_first_run (data_path_of ''datasets'')
   \<and> (\<exists>w'. download_and_extract_data online_env ''datasets'' after_first_run = (Inr (), w')
           \<and> files w' = files after_first_run
           \<and> new_events after_first_run w' = [Print (done_message ''datasets'')]
           \<and> filter is_request (new_events after_first_run w') = []
           \<and> filter is_extraction (new_events after_first_run w') = [])"
proof -
  have there: "os_path_exists after_first_run (data_path_of ''datasets'')"
    by (simp add: after_first_run_def first_run paths_datasets os_path_exists_def)
  have ok: "fst (download_and_extract_data online_env ''datasets'' fresh_world) = Inr ()"
    by (simp add: first_run)
  from download_and_extract_data_idempotent [OF there, of online_env] ok there
  show ?thesis by simp
qed

text \<open>
  C9. The dataset fetch is a single request to the fixed archive URL with a timeout of
  15 seconds: the requests of a run are that one request, or none when the data
  directory or the archive is already on disk. If the function sends the request and it
  fails, the function ends with the error the request raised, having sent exactly that
  one request, written no file and unpacked nothing.
\<close>

theorem fetch_single_request_no_retry:
  "filter is_request (new_events w (snd (download_and_extract_data en d w))) =
     (if os_path_exists w (data_path_of d) \<or> os_path_exists w (data_zip_of d) then []
      else [UrlOpen archive_url 15])
   \<and> (\<not> os_path_exists w (data_path_of d) \<and> \<not> os_path_exists w (data_zip_of d)
        \<and> urlopen_read en archive_url 15 = Inl e
      \<longrightarrow> fst (download_and_extract_data en d w) = Inl e
          \<and> filter is_request (new_events w (snd (download_and_extract_data en d w)))
              = [UrlOpen archive_url 15]
          \<and> filter is_extraction (new_events w (snd (download_and_extract_data en d w))) = []
          \<and> files (snd (download_and_extract_data en d w)) = files w)"
  by (simp add: download_and_extract_data_cases new_events_append new_events_append_files
      is_request_def is_extraction_def split: sum.splits prod.splits)

theorem fetch_single_request_no_retry_witness:
  "\<not> os_path_exists fresh_world (data_path_of ''datasets'')
   \<and> \<not> os_path_exists fresh_world (data_zip_of ''datasets'')
   \<and> urlopen_read offline_env archive_url 15 = Inl (URLError ''timed out'')
   \<and> fst (download_and_extract_data offline_env ''datasets'' fresh_world)
       = Inl (URLError ''timed out'')
   \<and> filter is_request
       (new_events fresh_world (snd (download_and_extract_data offline_env ''datasets'' fresh_world)))
       = [UrlOpen archive_url 15]
   \<and> files (snd (download_and_extract_data offline_env ''datasets'' fresh_world))
       = files fresh_world"
proof -
  have h: "\<not> os_path_exists fresh_world (data_path_of ''datasets'')
           \<and> \<not> os_path_exists fresh_world (data_zip_of ''datasets'')
           \<and> urlopen_read offline_env archive_url 15 = Inl (URLError ''timed out'')"
    by (simp add: paths_datasets os_path_exists_def fresh_world_def offline_env_def)
  from fetch_single_request_no_retry
         [of fresh_world offline_env "''datasets''" "URLError ''timed out''"] h
  show ?thesis by blast
qed

text \<open>
  C10, as stated, promises that the function reports success whenever the archive is
  on disk and the data directory is not. It does not when the archive cannot be
  unpacked: with the truncated archive of an interrupted download in place the function
  sends no request, the zip library raises, and the closing message is never printed.
\<close>

theorem local_archive_counterexample:
  "os_path_exists truncated_zip_world (data_zip_of ''datasets'')
   \<and> \<not> os_path_exists truncated_zip_world (data_path_of ''datasets'')
   \<and> download_and_extract_data online_env ''datasets'' truncated_zip_world =
       (Inl (BadZipFile ''datasets/hymenoptera_data.zip''),
        truncated_zip_world\<lparr>events :=
          [Print ''Starting to extract data...'',
           ExtractAll ''datasets/hymenoptera_data.zip'' ''datasets'']\<rparr>)"
  by (simp add: download_and_extract_data_cases paths_datasets os_path_exists_def
      truncated_zip_world_def online_env_def demo_extractall_def demo_archive_def)

text \<open>
  C10, amended. If the archive exists on disk and the extracted dataset directory does
  not, \<open>download_and_extract_data\<close> sends no request and unpacks the existing
  archive into the dataset directory, once, and the files are then what the extraction
  left. If the extraction raises no error, the function ends normally with its closing
  message; if it raises, the function ends with that error and the closing message is
  not printed.
\<close>

theorem local_archive_is_extracted:
  assumes "\<not> os_path_exists w (data_path_of d)"
      and "os_path_exists w (data_zip_of d)"
  shows "filter is_request (new_events w (snd (download_and_extract_data en d w))) = []
     \<and> filter is_extraction (new_events w (snd (download_and_extract_data en d w)))
         = [ExtractAll (data_zip_of d) d]
     \<and> files (snd (download_and_extract_data en d w))
         = snd (zip_extractall en (files w) (data_zip_of d) d)
     \<and> (case fst (zip_extractall en (files w) (data_zip_of d) d) of
          Inl e \<Rightarrow>
            fst (download_and_extract_data en d w) = Inl e
            \<and> Print (done_message d)
                \<notin> set (new_events w (snd (download_and_extract_data en d w)))
        | Inr u \<Rightarrow>
            fst (download_and_extract_data en d w) = Inr ()
            \<and> last (new_events w (snd (download_and_extract_data en d w)))
                = Print (done_message d))"
  using assms
  by (simp add: download_and_extract_data_cases new_events_append_files
      is_request_def is_extraction_def done_message_differs split: sum.splits prod.splits)

text \<open>The whole archive is on disk and the network is down: the data directory is
  unpacked from the archive all the same.\<close>

theorem local_archive_is_extracted_witness:
  "\<not> os_path_exists whole_zip_world (data_path_of ''datasets'')
   \<and> os_path_exists whole_zip_world (data_zip_of ''datasets'')
   \<and> filter is_request
       (new_events whole_zip_world
          (snd (download_and_extract_data offline_env ''datasets'' whole_zip_world))) = []
   \<and> fst (download_and_extract_data offline_env ''datasets'' whole_zip_world) = Inr ()
   \<and> os_path_exists (snd (download_and_extract_data offline_env ''datasets'' whole_zip_world))
       (data_path_of ''datasets'')"
proof -
  have a: "\<not> os_path_exists whole_zip_world (data_path_of ''datasets'')"
    by (simp add: paths_datasets os_path_exists_def whole_zip_world_def)
  have b: "os_path_exists whole_zip_world (data_zip_of ''datasets'')"
    by (simp add: paths_datasets os_path_exists_def whole_zip_world_def)
  have c: "zip_extractall offline_env (files whole_zip_world) (data_zip_of ''datasets'')
             ''datasets''
           = (Inr (), (files whole_zip_world)(''datasets/hymenoptera_data'' \<mapsto> Directory))"
    by (simp add: paths_datasets whole_zip_world_def offline_env_def demo_extractall_def
        os_path_join_def)
  from local_archive_is_extracted [OF a b, of offline_env] a b c
  show ?thesis by (simp add: os_path_exists_def paths_datasets)
qed

section \<open>Properties of the transform pipelines\<close>

lemma compose_val_transforms:
  "compose v val_transforms g x =
     (normalize v [0.485, 0.456, 0.406] [0.229, 0.224, 0.225]
        (to_tensor v (center_crop v 224 (resize v 256 x))), g)"
  by (simp add: val_transforms_def)

lemma compose_train_transforms:
  "fst (compose v train_transforms g x) =
     normalize v [0.485, 0.456, 0.406] [0.229, 0.224, 0.225]
       (to_tensor v
          (fst (random_horizontal_flip v (snd (random_resized_crop v 224 g x))
                  (fst (random_resized_crop v 224 g x)))))"
  by (simp add: train_transforms_def split: prod.splits)

text \<open>
  C7. The training and the validation pipeline normalize with the same constants:
  each has exactly one normalization step, its last, with mean
  \<open>[0.485, 0.456, 0.406]\<close> and standard deviation \<open>[0.229, 0.224, 0.225]\<close>, and
  what either pipeline returns is the result of that step.
\<close>

theorem normalization_constants_shared:
  "normalizations train_transforms = [([0.485, 0.456, 0.406], [0.229, 0.224, 0.225])]
   \<and> normalizations val_transforms = [([0.485, 0.456, 0.406], [0.229, 0.224, 0.225])]
   \<and> normalizations train_transforms = normalizations val_transforms
   \<and> last train_transforms = Normalize [0.485, 0.456, 0.406] [0.229, 0.224, 0.225]
   \<and> last val_transforms = Normalize [0.485, 0.456, 0.406] [0.229, 0.224, 0.225]
   \<and> fst (compose v train_transforms g x) =
       normalize v [0.485, 0.456, 0.406] [0.229, 0.224, 0.225]
         (to_tensor v
            (fst (random_horizontal_flip v (snd (random_resized_crop v 224 g x))
                    (fst (random_resized_crop v 224 g x)))))
   \<and> fst (compose v val_transforms g x) =
       normalize v [0.485, 0.456, 0.406] [0.229, 0.224, 0.225]
         (to_tensor v (center_crop v 224 (resize v 256 x)))"
proof -
  have "normalizations train_transforms = [([0.485, 0.456, 0.406], [0.229, 0.224, 0.225])]"
    and "normalizations val_transforms = [([0.485, 0.456, 0.406], [0.229, 0.224, 0.225])]"
    and "last train_transforms = Normalize [0.485, 0.456, 0.406] [0.229, 0.224, 0.225]"
    and "last val_transforms = Normalize [0.485, 0.456, 0.406] [0.229, 0.224, 0.225]"
    by (simp_all add: train_transforms_def val_transforms_def)
  then show ?thesis
    by (simp only: compose_train_transforms compose_val_transforms fst_conv simp_thms)
qed

theorem normalization_constants_shared_witness:
  "normalizations train_transforms = normalizations val_transforms
   \<and> fst (compose demo_vision train_transforms 0 []) = [''crop@'', ''tensor'', ''normalize'']
   \<and> fst (compose demo_vision val_transforms 0 []) = [''resize'', ''center'', ''tensor'', ''normalize'']"
proof -
  have "fst (compose demo_vision train_transforms 0 []) = [''crop@'', ''tensor'', ''normalize'']"
    and "fst (compose demo_vision val_transforms 0 []) = [''resize'', ''center'', ''tensor'', ''normalize'']"
    by (simp_all add: train_transforms_def val_transforms_def demo_vision_def)
  with normalization_constants_shared [of demo_vision 0 "[]"] show ?thesis by simp
qed

section \<open>Properties of the training run\<close>

subsection \<open>The loop, one epoch at a time\<close>

lemma fit_loop_Suc: "fit_loop be cfg tr va (Suc k) st = run_single_epoch be cfg tr va (fit_loop be cfg tr va k st)"
  by (induction k arbitrary: st) simp_all

lemma state_after_0:
  "state_after be cfg m tr va 0 = fold on_train_begin (callbacks cfg) (initialize cfg m)"
  by (simp add: state_after_def)

lemma state_after_Suc:
  "state_after be cfg m tr va (Suc k) = run_single_epoch be cfg tr va (state_after be cfg m tr va k)"
  unfolding state_after_def by (rule fit_loop_Suc)

text \<open>The epoch of the notebook's configuration, with its three callbacks run: the
  scheduler counts the epoch and decays the rate, the checkpoint saves the trained
  parameters when the accuracy is the best one.\<close>

lemma run_single_epoch_net:
  "run_single_epoch be net tr va st =
     (let rate = optimizer_lr st;
          e = Suc (length (history st));
          trained = train_pass be rate (iterator be 4 True e tr) (module_params st);
          acc = accuracy be (fst trained) (concat (iterator be 4 True e va));
          best = (case best_score st of None \<Rightarrow> True | Some b \<Rightarrow> b < acc)
      in st\<lparr>module_params := fst trained,
            optimizer_lr := (if Suc (last_epoch st) mod 7 = 0 then rate * 0.1 else rate),
            last_epoch := Suc (last_epoch st),
            best_score := (if best then Some acc else best_score st),
            history := history st @
              [\<lparr>epoch = e, train_batch_sizes = snd trained,
                valid_batch_sizes = valid_pass (iterator be 4 True e va),
                valid_acc = acc, valid_acc_best = best, event_cp = best, event_lr = rate\<rparr>],
            saved := (if best then (saved st)(''best_model.pt'' \<mapsto> state_dict (fst trained))
                      else saved st)\<rparr>)"
  by (simp add: run_single_epoch_def net_def lrscheduler_def checkpoint_def freezer_def
      Let_def monitored_def)

lemma state_after_net_0:
  "state_after be net m tr va 0 =
     \<lparr>module_params = map (freeze_parameter (\<lambda>x. \<not> startswith x ''model.fc'')) m,
      optimizer_lr = 0.001, last_epoch = 0, best_score = None, history = [],
      saved = Map.empty\<rparr>"
  by (simp add: state_after_0 initialize_def net_def lrscheduler_def checkpoint_def freezer_def)

lemma length_history_net: "length (history (state_after be net m tr va k)) = k"
  by (induction k) (simp_all add: state_after_net_0 state_after_Suc run_single_epoch_net Let_def)

lemma history_net_Suc:
  "\<exists>r. history (state_after be net m tr va (Suc k)) = history (state_after be net m tr va k) @ [r]"
  by (simp add: state_after_Suc run_single_epoch_net Let_def)

text \<open>A line of the log, once written, stays: line \<open>i\<close> of any later log is the line
  the epoch \<open>i + 1\<close> appended.\<close>

lemma history_net_stable:
  "i < k \<Longrightarrow> history (state_after be net m tr va k) ! i
             = last (history (state_after be net m tr va (Suc i)))"
proof (induction k)
  case 0
  then show ?case by simp
next
  case (Suc k)
  obtain r where r: "history (state_after be net m tr va (Suc k))
                      = history (state_after be net m tr va k) @ [r]"
    using history_net_Suc by blast
  show ?case
  proof (cases "i = k")
    case True
    then show ?thesis by (simp add: r nth_append length_history_net)
  next
    case False
    with Suc.prems have "i < k" by simp
    with Suc.IH show ?thesis by (simp add: r nth_append length_history_net)
  qed
qed

lemma history_net_take:
  "i \<le> k \<Longrightarrow> take i (history (state_after be net m tr va k)) = history (state_after be net m tr va i)"
proof (induction k)
  case 0
  then show ?case by (simp add: state_after_net_0)
next
  case (Suc k)
  obtain r where r: "history (state_after be net m tr va (Suc k))
                      = history (state_after be net m tr va k) @ [r]"
    using history_net_Suc by blast
  show ?case
  proof (cases "i = Suc k")
    case True
    then show ?thesis using length_history_net [of be m tr va "Suc k"] by simp
  next
    case False
    with Suc.prems have "i \<le> k" by simp
    with Suc.IH show ?thesis by (simp add: r length_history_net)
  qed
qed

subsection \<open>Learning-rate schedule\<close>

lemma last_epoch_net: "last_epoch (state_after be net m tr va k) = k"
  by (induction k) (simp_all add: state_after_net_0 state_after_Suc run_single_epoch_net Let_def)

text \<open>The rate the optimizer holds after \<open>k\<close> epochs: the step-wise product of the
  scheduler equals the closed form.\<close>

lemma optimizer_lr_net:
  "optimizer_lr (state_after be net m tr va k) = 0.001 * 0.1 ^ (k div 7)"
proof (induction k)
  case 0
  show ?case by (simp add: state_after_net_0)
next
  case (Suc k)
  have step: "optimizer_lr (state_after be net m tr va (Suc k)) =
      (if Suc k mod 7 = 0 then optimizer_lr (state_after be net m tr va k) * 0.1
       else optimizer_lr (state_after be net m tr va k))"
    by (simp add: state_after_Suc run_single_epoch_net Let_def last_epoch_net)
  show ?case
    by (simp only: step Suc.IH div_Suc power_Suc split: if_splits) simp
qed

lemma event_lr_net:
  "event_lr (last (history (state_after be net m tr va (Suc i))))
     = optimizer_lr (state_after be net m tr va i)"
  by (simp add: state_after_Suc run_single_epoch_net Let_def)

lemma floor_epochs: "nat \<lfloor>(of_nat e - 1) / (7::rat)\<rfloor> = (e - 1) div 7" if "1 \<le> e"
proof -
  have a: "(of_nat e - 1 :: rat) = of_nat (e - 1)"
    using that by (simp add: of_nat_diff)
  have b: "(7::rat) = of_nat 7" by simp
  have "\<lfloor>(of_nat (e - 1) :: rat) / of_nat 7\<rfloor> = int ((e - 1) div 7)"
    by (rule floor_divide_of_nat_eq)
  then have "nat \<lfloor>(of_nat (e - 1) :: rat) / of_nat 7\<rfloor> = (e - 1) div 7"
    by (simp only: nat_int)
  then show ?thesis by (simp only: a b)
qed

text \<open>
  C4. The learning rate follows step decay. In a run of the notebook's configuration
  (initial rate 0.001, decay factor 0.1, step size 7), for every epoch \<open>e \<ge> 1\<close> the
  rate the optimizer holds when the steps of epoch \<open>e\<close> start is
  \<open>0.001 * 0.1 ^ floor ((e - 1) / 7)\<close>, and this is the rate the log line of the epoch
  records, in every run that reaches the epoch.
\<close>

theorem step_decay_learning_rate:
  assumes "1 \<le> e"
  shows "optimizer_lr (state_after be net m tr va (e - 1))
           = 0.001 * 0.1 ^ nat \<lfloor>(of_nat e - 1) / (7::rat)\<rfloor>
       \<and> (\<forall>k. e \<le> k \<longrightarrow>
             event_lr (history (state_after be net m tr va k) ! (e - 1))
               = 0.001 * 0.1 ^ nat \<lfloor>(of_nat e - 1) / (7::rat)\<rfloor>)
       \<and> (e \<le> 25 \<longrightarrow>
             event_lr (history (fit be net m tr va) ! (e - 1))
               = 0.001 * 0.1 ^ nat \<lfloor>(of_nat e - 1) / (7::rat)\<rfloor>)"
proof -
  have rate: "optimizer_lr (state_after be net m tr va (e - 1))
                = 0.001 * 0.1 ^ nat \<lfloor>(of_nat e - 1) / (7::rat)\<rfloor>"
    by (simp only: optimizer_lr_net floor_epochs [OF assms])
  have line: "event_lr (history (state_after be net m tr va k) ! (e - 1))
                = 0.001 * 0.1 ^ nat \<lfloor>(of_nat e - 1) / (7::rat)\<rfloor>" if "e \<le> k" for k
  proof -
    from assms that have "e - 1 < k" by simp
    then have "history (state_after be net m tr va k) ! (e - 1)
                 = last (history (state_after be net m tr va (Suc (e - 1))))"
      by (rule history_net_stable)
    then show ?thesis by (simp only: event_lr_net rate)
  qed
  have "max_epochs net = 25" by (simp add: net_def)
  then have "fit be net m tr va = state_after be net m tr va 25"
    by (simp add: fit_def)
  with rate line show ?thesis by simp
qed

text \<open>Epoch 8 is the first one at the decayed rate, as in the log the notebook
  printed.\<close>

theorem step_decay_learning_rate_witness:
  "(1::nat) \<le> 8
   \<and> optimizer_lr (state_after demo_backend net demo_model demo_train demo_valid 7) = 1 / 10000
   \<and> event_lr (history (fit demo_backend net demo_model demo_train demo_valid) ! 7) = 1 / 10000"
proof -
  have h: "(1::nat) \<le> 8" by simp
  have f: "nat \<lfloor>(of_nat 8 - 1) / (7::rat)\<rfloor> = 1"
    by (simp only: floor_epochs [OF h])
  from step_decay_learning_rate [OF h, of demo_backend demo_model demo_train demo_valid]
  show ?thesis by (simp only: f) simp
qed

subsection \<open>Checkpoint\<close>

text \<open>What an epoch of the notebook's configuration does to the best accuracy, the
  checkpoint file and the log.\<close>

lemma epoch_checkpoint_net:
  "\<exists>r. history (state_after be net m tr va (Suc k)) = history (state_after be net m tr va k) @ [r]
      \<and> event_cp r = (case best_score (state_after be net m tr va k) of
                         None \<Rightarrow> True | Some b \<Rightarrow> b < valid_acc r)
      \<and> best_score (state_after be net m tr va (Suc k)) =
            (if event_cp r then Some (valid_acc r) else best_score (state_after be net m tr va k))
      \<and> saved (state_after be net m tr va (Suc k)) =
            (if event_cp r
             then (saved (state_after be net m tr va k))
                    (''best_model.pt'' \<mapsto> state_dict (module_params (state_after be net m tr va (Suc k))))
             else saved (state_after be net m tr va k))"
  by (simp add: state_after_Suc run_single_epoch_net Let_def split: option.splits)

text \<open>The best accuracy the loop carries along is the maximum of the accuracies
  logged so far.\<close>

lemma best_score_net:
  "best_score (state_after be net m tr va k) =
     (if history (state_after be net m tr va k) = [] then None
      else Some (Max (set (map valid_acc (history (state_after be net m tr va k))))))"
proof (induction k)
  case 0
  show ?case by (simp add: state_after_net_0)
next
  case (Suc k)
  obtain r where
    h: "history (state_after be net m tr va (Suc k)) = history (state_after be net m tr va k) @ [r]"
    and cp: "event_cp r = (case best_score (state_after be net m tr va k) of
                             None \<Rightarrow> True | Some b \<Rightarrow> b < valid_acc r)"
    and best: "best_score (state_after be net m tr va (Suc k)) =
                 (if event_cp r then Some (valid_acc r)
                  else best_score (state_after be net m tr va k))"
    using epoch_checkpoint_net [of be m tr va k] by blast
  show ?case
  proof (cases "history (state_after be net m tr va k) = []")
    case True
    with Suc.IH cp best h show ?thesis by simp
  next
    case False
    let ?A = "set (map valid_acc (history (state_after be net m tr va k)))"
    from False have ne: "?A \<noteq> {}" and fin: "finite ?A" by simp_all
    from False Suc.IH have b: "best_score (state_after be net m tr va k) = Some (Max ?A)"
      by simp
    have "Max (insert (valid_acc r) ?A) = max (valid_acc r) (Max ?A)"
      using fin ne by (rule Max_insert)
    with b cp best h show ?thesis by (simp add: max_def)
  qed
qed

lemma checkpoint_flag_net:
  assumes "i < k"
  shows "event_cp (history (state_after be net m tr va k) ! i)
           = (\<forall>j<i. valid_acc (history (state_after be net m tr va k) ! j)
                      < valid_acc (history (state_after be net m tr va k) ! i))"
proof -
  let ?H = "history (state_after be net m tr va k)"
  let ?Hi = "history (state_after be net m tr va i)"
  obtain r where
    h: "history (state_after be net m tr va (Suc i)) = ?Hi @ [r]"
    and cp: "event_cp r = (case best_score (state_after be net m tr va i) of
                             None \<Rightarrow> True | Some b \<Rightarrow> b < valid_acc r)"
    using epoch_checkpoint_net [of be m tr va i] by blast
  from assms have row: "?H ! i = r"
    by (simp add: history_net_stable h)
  from assms have tk: "take i ?H = ?Hi"
    by (simp add: history_net_take)
  have len: "length ?Hi = i" by (rule length_history_net)
  have earlier: "?H ! j = ?Hi ! j" if "j < i" for j
    using that tk by (metis nth_take)
  have "event_cp r = (\<forall>a \<in> set (map valid_acc ?Hi). a < valid_acc r)"
  proof (cases "?Hi = []")
    case True
    then show ?thesis by (simp add: cp best_score_net)
  next
    case False
    then have ne: "set (map valid_acc ?Hi) \<noteq> {}" by simp
    have fin: "finite (set (map valid_acc ?Hi))" by simp
    have "(Max (set (map valid_acc ?Hi)) < valid_acc r)
                 = (\<forall>a \<in> set (map valid_acc ?Hi). a < valid_acc r)"
      using fin ne by (rule Max_less_iff)
    with False show ?thesis by (simp add: cp best_score_net)
  qed
  also have "\<dots> = (\<forall>j<length ?Hi. valid_acc (?Hi ! j) < valid_acc r)"
    by (simp add: all_set_conv_all_nth)
  also have "\<dots> = (\<forall>j<i. valid_acc (?Hi ! j) < valid_acc r)"
    by (simp only: len)
  also have "\<dots> = (\<forall>j<i. valid_acc (?H ! j) < valid_acc r)"
    using earlier by simp
  finally show ?thesis by (simp only: row)
qed

lemma checkpoint_file_net:
  "saved (state_after be net m tr va (Suc i)) ''best_model.pt'' =
     (if event_cp (last (history (state_after be net m tr va (Suc i))))
      then Some (state_dict (module_params (state_after be net m tr va (Suc i))))
      else saved (state_after be net m tr va i) ''best_model.pt'')"
  using epoch_checkpoint_net [of be m tr va i] by auto

lemma checkpoint_kept_net:
  "saved (state_after be net m tr va (Suc i)) ''best_model.pt'' \<noteq> None"
proof (induction i)
  case 0
  have "history (state_after be net m tr va 0) = []"
    by (simp add: state_after_net_0)
  then have "best_score (state_after be net m tr va 0) = None"
    by (simp add: best_score_net)
  then show ?case using epoch_checkpoint_net [of be m tr va 0] by auto
next
  case (Suc i)
  then show ?case by (simp add: checkpoint_file_net [of be m tr va "Suc i"])
qed
lemma fit_net: "fit be net m tr va = state_after be net m tr va 25"
  by (simp add: fit_def net_def)

text \<open>Fed the accuracies of the table the notebook printed, the loop marks the epochs
  the table marks in its column \<^verbatim>\<open>cp\<close>, epochs 1 and 14, and no other; the accuracy
  of epoch 8 equals the best one so far and does not count.\<close>

lemma logged_checkpoints:
  "map epoch (filter event_cp (history (fit demo_backend net demo_model demo_train demo_valid)))
     = [1, 14]"
  by code_simp

lemma logged_checkpoint_14:
  "event_cp (history (fit demo_backend net demo_model demo_train demo_valid) ! 13)"
  by code_simp

text \<open>
  C2. During a run of the notebook's configuration, at the boundary that ends epoch
  \<open>i + 1\<close> the checkpoint file \<^verbatim>\<open>best_model.pt\<close> is written if and only if the
  validation accuracy of that epoch is strictly above the accuracy of every earlier
  epoch of the run: the log marks the epoch exactly then, the file then holds the
  parameters of that moment, and otherwise the file is what it was at the boundary
  before. From the first boundary on the file exists, and it exists when the run ends.
\<close>

theorem checkpoint_written_iff_strictly_best:
  assumes "i < 25"
  shows "(event_cp (history (fit be net m tr va) ! i)
            \<longleftrightarrow> (\<forall>j<i. valid_acc (history (fit be net m tr va) ! j)
                         < valid_acc (history (fit be net m tr va) ! i)))
       \<and> saved (state_after be net m tr va (Suc i)) ''best_model.pt'' =
           (if event_cp (history (fit be net m tr va) ! i)
            then Some (state_dict (module_params (state_after be net m tr va (Suc i))))
            else saved (state_after be net m tr va i) ''best_model.pt'')
       \<and> saved (state_after be net m tr va (Suc i)) ''best_model.pt'' \<noteq> None
       \<and> saved (fit be net m tr va) ''best_model.pt'' \<noteq> None"
proof -
  have flag: "event_cp (history (fit be net m tr va) ! i)
            \<longleftrightarrow> (\<forall>j<i. valid_acc (history (fit be net m tr va) ! j)
                         < valid_acc (history (fit be net m tr va) ! i))"
    unfolding fit_net using assms by (rule checkpoint_flag_net)
  have "history (fit be net m tr va) ! i = last (history (state_after be net m tr va (Suc i)))"
    unfolding fit_net using assms by (rule history_net_stable)
  then have written: "saved (state_after be net m tr va (Suc i)) ''best_model.pt'' =
           (if event_cp (history (fit be net m tr va) ! i)
            then Some (state_dict (module_params (state_after be net m tr va (Suc i))))
            else saved (state_after be net m tr va i) ''best_model.pt'')"
    by (simp only: checkpoint_file_net)
  have kept: "saved (state_after be net m tr va (Suc i)) ''best_model.pt'' \<noteq> None"
    by (rule checkpoint_kept_net)
  have "saved (state_after be net m tr va (Suc 24)) ''best_model.pt'' \<noteq> None"
    by (rule checkpoint_kept_net)
  then have final: "saved (fit be net m tr va) ''best_model.pt'' \<noteq> None"
    by (simp add: fit_net)
  from flag written kept final show ?thesis by blast
qed

text \<open>Epoch 14 of the logged run: its accuracy 0.9542 is above all earlier ones, and
  the file holds the parameters of the boundary that ends it.\<close>

theorem checkpoint_written_iff_strictly_best_witness:
  "(13::nat) < 25
   \<and> event_cp (history (fit demo_backend net demo_model demo_train demo_valid) ! 13)
   \<and> saved (state_after demo_backend net demo_model demo_train demo_valid 14) ''best_model.pt''
       = Some (state_dict
           (module_params (state_after demo_backend net demo_model demo_train demo_valid 14)))
   \<and> saved (fit demo_backend net demo_model demo_train demo_valid) ''best_model.pt'' \<noteq> None"
proof -
  have h: "(13::nat) < 25" by simp
  have s: "Suc 13 = 14" by simp
  from checkpoint_written_iff_strictly_best
         [OF h, of demo_backend demo_model demo_train demo_valid]
       logged_checkpoint_14 h
  show ?thesis by (simp only: s if_True simp_thms)
qed

subsection \<open>Training steps and validation passes\<close>

lemma length_batches: "0 < n \<Longrightarrow> length (batches n xs) = (length xs + n - 1) div n"
proof (induction n xs rule: batches.induct)
  case (1 n xs)
  show ?case
  proof (cases "xs = []")
    case True
    with "1.prems" show ?thesis by (simp add: batches.simps)
  next
    case False
    with "1.prems" have step: "length (batches n xs) = Suc ((length xs - n + n - 1) div n)"
      using "1.IH" by (simp add: batches.simps [of n xs])
    from False have pos: "0 < length xs" by simp
    show ?thesis
    proof (cases "length xs < n")
      case True
      from pos True have "n * 1 \<le> length xs + n - 1" and "length xs + n - 1 < n * Suc 1"
        by arith+
      then have "(length xs + n - 1) div n = 1"
        by (rule div_nat_eqI)
      with True "1.prems" show ?thesis by (simp add: step)
    next
      case False
      then have "length xs + n - 1 = (length xs - n + n - 1) + n" using "1.prems" by simp
      then have "(length xs + n - 1) div n = Suc ((length xs - n + n - 1) div n)"
        using "1.prems" by (simp only: div_add_self2)
      then show ?thesis by (simp add: step)
    qed
  qed
qed

lemma sum_length_batches: "0 < n \<Longrightarrow> sum_list (map length (batches n xs)) = length xs"
proof (induction n xs rule: batches.induct)
  case (1 n xs)
  show ?case
  proof (cases "xs = []")
    case True
    then show ?thesis by (simp add: batches.simps)
  next
    case False
    with "1.prems" "1.IH" show ?thesis
      by (simp add: batches.simps [of n xs] min_def)
  qed
qed

lemma ceiling_quarter: "nat \<lceil>of_nat N / (4::rat)\<rceil> = (N + 3) div 4"
proof -
  have "(of_nat N / 4 :: rat) = - (of_int (- int N) / of_int 4)" by simp
  then have "\<lceil>of_nat N / (4::rat)\<rceil> = - \<lfloor>(of_int (- int N) :: rat) / of_int 4\<rfloor>"
    by (simp only: ceiling_def minus_minus)
  also have "\<dots> = - ((- int N) div 4)"
    by (simp only: floor_divide_of_int_eq)
  also have "\<dots> = int ((N + 3) div 4)"
    by (simp add: zdiv_int)
  finally show ?thesis by simp
qed

lemma snd_train_pass_fold:
  "snd (fold (\<lambda>b acc. (train_step be rate b (fst acc), snd acc @ [length b])) bs (m, sizes))
     = sizes @ map length bs"
  by (induction bs arbitrary: m sizes) simp_all

lemma snd_train_pass: "snd (train_pass be rate bs m) = map length bs"
  by (simp add: train_pass_def snd_train_pass_fold)

lemma valid_pass_fold: "fold (\<lambda>b sizes. sizes @ [length b]) bs sizes = sizes @ map length bs"
  by (induction bs arbitrary: sizes) simp_all

lemma valid_pass_sizes: "valid_pass bs = map length bs"
  by (simp add: valid_pass_def valid_pass_fold)

text \<open>The sizes an epoch records: one per training step and one per validation
  step, over the batches of the shuffled sets.\<close>

lemma epoch_sizes_net:
  "train_batch_sizes (last (history (state_after be net m tr va (Suc i))))
     = map length (batches 4 (shuffle be (Suc i) tr))
   \<and> valid_batch_sizes (last (history (state_after be net m tr va (Suc i))))
     = map length (batches 4 (shuffle be (Suc i) va))"
  by (simp add: state_after_Suc run_single_epoch_net Let_def snd_train_pass valid_pass_sizes
      iterator_def length_history_net)

lemma row_sizes_net:
  assumes len: "\<And>e xs. length (shuffle be e xs) = length xs"
      and r: "r \<in> set (history (state_after be net m tr va k))"
  shows "length (train_batch_sizes r) = (length tr + 3) div 4
       \<and> sum_list (train_batch_sizes r) = length tr
       \<and> sum_list (valid_batch_sizes r) = length va"
proof -
  from r obtain i where i: "i < k" and ri: "r = history (state_after be net m tr va k) ! i"
    by (auto simp: in_set_conv_nth length_history_net)
  from i have "r = last (history (state_after be net m tr va (Suc i)))"
    unfolding ri by (rule history_net_stable)
  then have t: "train_batch_sizes r = map length (batches 4 (shuffle be (Suc i) tr))"
    and v: "valid_batch_sizes r = map length (batches 4 (shuffle be (Suc i) va))"
    by (simp_all only: epoch_sizes_net)
  show ?thesis
    by (simp add: t v length_batches sum_length_batches len)
qed

text \<open>
  C5. With a training set of \<open>N\<close> images and a validation set of \<open>M\<close> images, the
  run of the notebook's configuration (batch size 4, 25 epochs) logs 25 epochs; their
  optimizer steps number \<open>ceil (N / 4) * 25\<close> in total, \<open>ceil (N / 4)\<close> in each
  epoch over batches that hold the \<open>N\<close> images together; and each epoch has one
  validation pass, whose batches hold the \<open>M\<close> images together. A shuffling loader
  returns as many samples as it is given.
\<close>

theorem training_step_count:
  assumes "\<And>e xs. length (shuffle be e xs) = length xs"
  shows "length (history (fit be net m tr va)) = 25
       \<and> (\<Sum>r\<leftarrow>history (fit be net m tr va). length (train_batch_sizes r))
           = nat \<lceil>of_nat (length tr) / (4::rat)\<rceil> * 25
       \<and> (\<forall>r \<in> set (history (fit be net m tr va)).
             length (train_batch_sizes r) = nat \<lceil>of_nat (length tr) / (4::rat)\<rceil>
             \<and> sum_list (train_batch_sizes r) = length tr
             \<and> sum_list (valid_batch_sizes r) = length va)"
proof -
  let ?H = "history (fit be net m tr va)"
  have n: "length ?H = 25"
    by (simp add: fit_net length_history_net)
  have rows: "length (train_batch_sizes r) = (length tr + 3) div 4
       \<and> sum_list (train_batch_sizes r) = length tr
       \<and> sum_list (valid_batch_sizes r) = length va" if "r \<in> set ?H" for r
    using assms that unfolding fit_net by (rule row_sizes_net)
  have "map (\<lambda>r. length (train_batch_sizes r)) ?H = map (\<lambda>r. (length tr + 3) div 4) ?H"
    using rows by simp
  then have "(\<Sum>r\<leftarrow>?H. length (train_batch_sizes r)) = (\<Sum>r\<leftarrow>?H. (length tr + 3) div 4)"
    by (simp only:)
  also have "\<dots> = (length tr + 3) div 4 * 25"
    by (simp add: sum_list_triv n)
  finally have total: "(\<Sum>r\<leftarrow>?H. length (train_batch_sizes r)) = (length tr + 3) div 4 * 25" .
  from n total rows show ?thesis
    by (simp only: ceiling_quarter) blast
qed

text \<open>Six training and five validation samples: two steps in each of the 25 epochs,
  fifty in all.\<close>

theorem training_step_count_witness:
  "(\<forall>e xs. length (shuffle demo_backend e xs) = length xs)
   \<and> length (history (fit demo_backend net demo_model demo_train demo_valid)) = 25
   \<and> (\<Sum>r\<leftarrow>history (fit demo_backend net demo_model demo_train demo_valid).
         length (train_batch_sizes r)) = 50"
proof -
  have h: "length (shuffle demo_backend e xs) = length xs" for e xs
    by (simp add: demo_backend_def)
  have c: "nat \<lceil>of_nat (length demo_train) / (4::rat)\<rceil> * 25 = 50"
    by (simp only: ceiling_quarter) (simp add: demo_train_def)
  from training_step_count [of demo_backend demo_model demo_train demo_valid, OF h] h c
  show ?thesis by simp
qed

subsection \<open>Parameter freezing\<close>

lemma filter_map_fixed:
  assumes "\<And>x. P (g x) = P x" and "\<And>x. P x \<Longrightarrow> g x = x"
  shows "filter P (map g xs) = filter P xs"
  using assms by (induction xs) simp_all

text \<open>A training step changes neither a name nor a flag, and leaves every frozen
  parameter as it is.\<close>

lemma train_step_flags:
  "map (\<lambda>p. (pname p, requires_grad p)) (train_step be rate b m)
     = map (\<lambda>p. (pname p, requires_grad p)) m"
  by (auto simp: train_step_def)

lemma train_step_frozen:
  "filter (\<lambda>p. \<not> requires_grad p) (train_step be rate b m) = filter (\<lambda>p. \<not> requires_grad p) m"
  unfolding train_step_def by (rule filter_map_fixed) auto

lemma train_pass_fold_flags:
  "map (\<lambda>p. (pname p, requires_grad p))
     (fst (fold (\<lambda>b acc. (train_step be rate b (fst acc), snd acc @ [length b])) bs (m, sizes)))
     = map (\<lambda>p. (pname p, requires_grad p)) m"
  by (induction bs arbitrary: m sizes) (simp_all add: train_step_flags)

lemma train_pass_fold_frozen:
  "filter (\<lambda>p. \<not> requires_grad p)
     (fst (fold (\<lambda>b acc. (train_step be rate b (fst acc), snd acc @ [length b])) bs (m, sizes)))
     = filter (\<lambda>p. \<not> requires_grad p) m"
  by (induction bs arbitrary: m sizes) (simp_all add: train_step_frozen)

lemma module_params_net_Suc:
  "module_params (state_after be net m tr va (Suc k)) =
     fst (train_pass be (optimizer_lr (state_after be net m tr va k))
            (iterator be 4 True (Suc k) tr) (module_params (state_after be net m tr va k)))"
  by (simp add: state_after_Suc run_single_epoch_net Let_def length_history_net)

lemma flags_net:
  "map (\<lambda>p. (pname p, requires_grad p)) (module_params (state_after be net m tr va k))
     = map (\<lambda>p. (pname p, requires_grad p))
         (map (freeze_parameter (\<lambda>x. \<not> startswith x ''model.fc'')) m)"
proof (induction k)
  case 0
  show ?case by (simp add: state_after_net_0)
next
  case (Suc k)
  then show ?case
    by (simp only: module_params_net_Suc train_pass_def train_pass_fold_flags)
qed

lemma frozen_net:
  "filter (\<lambda>p. \<not> requires_grad p) (module_params (state_after be net m tr va k))
     = filter (\<lambda>p. \<not> requires_grad p)
         (map (freeze_parameter (\<lambda>x. \<not> startswith x ''model.fc'')) m)"
proof (induction k)
  case 0
  show ?case by (simp add: state_after_net_0)
next
  case (Suc k)
  then show ?case
    by (simp only: module_params_net_Suc train_pass_def train_pass_fold_frozen)
qed

text \<open>The assembled model: every parameter is trainable, and the parameters outside
  the final layer are those of the pretrained network outside its own final layer,
  under their longer names.\<close>

lemma PretrainedModel_trainable: "p \<in> set (PretrainedModel resnet18 w b) \<Longrightarrow> requires_grad p"
  by (auto simp: PretrainedModel_def new_parameter_def)

lemma startswith_model_fc: "startswith (''model.'' @ n) ''model.fc'' = startswith n ''fc''"
proof -
  have "''model.fc'' = ''model.'' @ ''fc''" by simp
  then show ?thesis unfolding startswith_def by (simp only: same_prefix_prefix)
qed

lemma pname_new_parameter:
  "startswith (pname (new_parameter (''model.'' @ n, v))) ''model.fc'' = startswith n ''fc''"
  unfolding new_parameter_def using startswith_model_fc [of n] by simp

lemma startswith_fc_dot: "startswith n ''fc.'' \<Longrightarrow> startswith n ''fc''"
proof -
  have "prefix ''fc'' ''fc.''" by (simp add: prefix_def)
  then show "startswith n ''fc.'' \<Longrightarrow> startswith n ''fc''"
    unfolding startswith_def by (rule prefix_order.trans)
qed

lemma PretrainedModel_backbone:
  "filter (\<lambda>p. \<not> startswith (pname p) ''model.fc'') (PretrainedModel resnet18 w b)
     = map (\<lambda>nv. new_parameter (''model.'' @ fst nv, snd nv))
         (filter (\<lambda>nv. \<not> startswith (fst nv) ''fc'') resnet18)"
proof -
  have a: "startswith ''fc.weight'' ''fc''" "startswith ''fc.bias'' ''fc''"
    by (simp_all add: startswith_def prefix_def)
  have "filter (\<lambda>nv. \<not> startswith (fst nv) ''fc'') (assign_fc resnet18 w b)
          = filter (\<lambda>nv. \<not> startswith (fst nv) ''fc'') resnet18"
    using a startswith_fc_dot by (auto simp: assign_fc_def intro: filter_cong)
  then show ?thesis
    by (simp only: PretrainedModel_def filter_map comp_def pname_new_parameter)
qed

lemma freeze_parameter_fields:
  "pname (freeze_parameter f q) = pname q"
  "pdata (freeze_parameter f q) = pdata q"
  "requires_grad (freeze_parameter f q) = (requires_grad q \<and> \<not> f (pname q))"
  by (simp_all add: freeze_parameter_def)

text \<open>
  C1. After the run of the notebook's configuration on the assembled model, a
  parameter is trainable if and only if its name starts with \<^verbatim>\<open>model.fc\<close>; the
  parameters have the names they had; and the parameters whose names do not start with
  \<^verbatim>\<open>model.fc\<close> are, in order, by name and value, the parameters of the pretrained
  network outside its final layer: each holds its pretrained value.
\<close>

theorem only_final_layer_trained:
  "(\<forall>p \<in> set (module_params (fit be net (PretrainedModel resnet18 w b) tr va)).
       requires_grad p \<longleftrightarrow> startswith (pname p) ''model.fc'')
   \<and> map pname (module_params (fit be net (PretrainedModel resnet18 w b) tr va))
       = map pname (PretrainedModel resnet18 w b)
   \<and> state_dict (filter (\<lambda>p. \<not> startswith (pname p) ''model.fc'')
                   (module_params (fit be net (PretrainedModel resnet18 w b) tr va)))
       = map (\<lambda>nv. (''model.'' @ fst nv, snd nv))
           (filter (\<lambda>nv. \<not> startswith (fst nv) ''fc'') resnet18)"
proof -
  let ?M = "PretrainedModel resnet18 w b"
  let ?F = "module_params (fit be net ?M tr va)"
  let ?fz = "freeze_parameter (\<lambda>x. \<not> startswith x ''model.fc'')"
  have fz: "requires_grad (?fz q) = startswith (pname q) ''model.fc''" if "q \<in> set ?M" for q
    using PretrainedModel_trainable [OF that] by (simp add: freeze_parameter_fields)
  have "map (\<lambda>p. (pname p, requires_grad p)) ?F = map (\<lambda>p. (pname p, requires_grad p)) (map ?fz ?M)"
    unfolding fit_net by (rule flags_net)
  also have "\<dots> = map (\<lambda>q. (pname q, startswith (pname q) ''model.fc'')) ?M"
    using fz by (simp add: freeze_parameter_fields)
  finally have flags:
    "map (\<lambda>p. (pname p, requires_grad p)) ?F
       = map (\<lambda>q. (pname q, startswith (pname q) ''model.fc'')) ?M" .
  have a: "requires_grad p = startswith (pname p) ''model.fc''" if "p \<in> set ?F" for p
  proof -
    from that have "(pname p, requires_grad p) \<in> set (map (\<lambda>p. (pname p, requires_grad p)) ?F)"
      by (simp add: image_iff) blast
    then have "(pname p, requires_grad p)
                 \<in> set (map (\<lambda>q. (pname q, startswith (pname q) ''model.fc'')) ?M)"
      by (simp only: flags)
    then show ?thesis by auto
  qed
  have "map fst (map (\<lambda>p. (pname p, requires_grad p)) ?F)
          = map fst (map (\<lambda>q. (pname q, startswith (pname q) ''model.fc'')) ?M)"
    by (simp only: flags)
  then have b: "map pname ?F = map pname ?M"
    by (simp add: comp_def)
  have "filter (\<lambda>p. \<not> startswith (pname p) ''model.fc'') ?F = filter (\<lambda>p. \<not> requires_grad p) ?F"
    using a by (auto intro: filter_cong)
  also have "\<dots> = filter (\<lambda>p. \<not> requires_grad p) (map ?fz ?M)"
    unfolding fit_net by (rule frozen_net)
  also have "\<dots> = map ?fz (filter (\<lambda>q. \<not> requires_grad (?fz q)) ?M)"
    by (simp add: filter_map comp_def)
  also have "filter (\<lambda>q. \<not> requires_grad (?fz q)) ?M
               = filter (\<lambda>q. \<not> startswith (pname q) ''model.fc'') ?M"
    using fz by (auto intro: filter_cong)
  also have "\<dots> = map (\<lambda>nv. new_parameter (''model.'' @ fst nv, snd nv))
                     (filter (\<lambda>nv. \<not> startswith (fst nv) ''fc'') resnet18)"
    by (rule PretrainedModel_backbone)
  finally have "filter (\<lambda>p. \<not> startswith (pname p) ''model.fc'') ?F
      = map ?fz (map (\<lambda>nv. new_parameter (''model.'' @ fst nv, snd nv))
                  (filter (\<lambda>nv. \<not> startswith (fst nv) ''fc'') resnet18))" .
  then have c: "state_dict (filter (\<lambda>p. \<not> startswith (pname p) ''model.fc'') ?F)
       = map (\<lambda>nv. (''model.'' @ fst nv, snd nv))
           (filter (\<lambda>nv. \<not> startswith (fst nv) ''fc'') resnet18)"
    by (simp add: state_dict_def comp_def freeze_parameter_fields new_parameter_def)
  from a b c show ?thesis by blast
qed

text \<open>The run on the small pretrained network: the four parameters outside the final
  layer hold the values they came with, and the two of the new layer are the trainable
  ones.\<close>

lemma demo_run_parameters:
  "map (\<lambda>p. (pname p, requires_grad p))
     (module_params (fit demo_backend net demo_model demo_train demo_valid))
     = [(''model.conv1.weight'', False), (''model.bn1.weight'', False),
        (''model.bn1.bias'', False), (''model.layer1.0.conv1.weight'', False),
        (''model.fc.weight'', True), (''model.fc.bias'', True)]"
  by code_simp

theorem only_final_layer_trained_witness:
  "state_dict (filter (\<lambda>p. \<not> startswith (pname p) ''model.fc'')
      (module_params (fit demo_backend net demo_model demo_train demo_valid)))
     = [(''model.conv1.weight'', 64), (''model.bn1.weight'', 1), (''model.bn1.bias'', 0),
        (''model.layer1.0.conv1.weight'', 3)]
   \<and> map pname (module_params (fit demo_backend net demo_model demo_train demo_valid))
     = map pname demo_model
   \<and> map (\<lambda>p. (pname p, requires_grad p))
       (module_params (fit demo_backend net demo_model demo_train demo_valid))
     = [(''model.conv1.weight'', False), (''model.bn1.weight'', False),
        (''model.bn1.bias'', False), (''model.layer1.0.conv1.weight'', False),
        (''model.fc.weight'', True), (''model.fc.bias'', True)]"
proof -
  have r: "map (\<lambda>nv. (''model.'' @ fst nv, snd nv))
             (filter (\<lambda>nv. \<not> startswith (fst nv) ''fc'') demo_resnet18)
           = [(''model.conv1.weight'', 64), (''model.bn1.weight'', 1), (''model.bn1.bias'', 0),
              (''model.layer1.0.conv1.weight'', 3)]"
    by (simp add: demo_resnet18_def startswith_def)
  from only_final_layer_trained [of demo_backend demo_resnet18 0 0 demo_train demo_valid]
       demo_run_parameters
  show ?thesis by (simp only: r demo_model_def [symmetric])
qed

end
